theory Spec2Isabelle
  imports Main
begin

section \<open>JavaScript values and strings\<close>

text \<open>
  The values that flow through \<open>gatsby-node.js\<close>: frontmatter entries and node fields
  that the schema types as \<open>String\<close>, \<open>Date\<close> or \<open>File\<close>. Such a property is
  absent (\<open>undefined\<close>), \<open>null\<close> or a string. A JavaScript string is a sequence of
  code units; the code below only ever compares a unit with the slash, so a \<open>string\<close>
  stands for it.
\<close>

datatype js_value = JUndefined | JNull | JString string

text \<open>The truthiness test of \<open>x ? a : b\<close>, \<open>if (x)\<close> and \<open>Boolean(x)\<close>.\<close>

fun truthy :: "js_value \<Rightarrow> bool" where
  "truthy JUndefined = False"
| "truthy JNull = False"
| "truthy (JString s) = (s \<noteq> [])"

text \<open>The conversion a template literal applies to an interpolated value.\<close>

fun to_string :: "js_value \<Rightarrow> string" where
  "to_string JUndefined = ''undefined''"
| "to_string JNull = ''null''"
| "to_string (JString s) = s"

abbreviation slash :: char where
  "slash \<equiv> CHR ''/''"

text \<open>
  \<open>s.replace(/\/\/+/g, `/`)\<close>: the global replacement scans from the left; where two
  slashes begin, the greedy \<open>\/\/+\<close> matches the whole run of slashes and the match is
  replaced by one slash; any other code unit is copied and the scan moves on by one.
\<close>

function replace_slash_runs :: "string \<Rightarrow> string" where
  "replace_slash_runs [] = []"
| "replace_slash_runs (c # cs) =
     (if c = slash \<and> (case cs of [] \<Rightarrow> False | d # _ \<Rightarrow> d = slash)
      then slash # replace_slash_runs (dropWhile (\<lambda>x. x = slash) cs)
      else c # replace_slash_runs cs)"
  by pat_completeness auto
termination
proof (relation "measure length")
  fix c :: char and cs :: string
  have "length (dropWhile (\<lambda>x. x = slash) cs) \<le> length cs"
    by (rule length_dropWhile_le)
  then show "(dropWhile (\<lambda>x. x = slash) cs, c # cs) \<in> measure length"
    by simp
qed simp_all

text \<open>
  \<open>s.split(sep)\<close> for a separator of one code unit: the pieces between the separators,
  empty pieces included; the empty string splits into one empty piece.
\<close>

fun split_on :: "char \<Rightarrow> string \<Rightarrow> string list" where
  "split_on sep [] = [[]]"
| "split_on sep (c # cs) =
     (if c = sep then [] # split_on sep cs
      else (case split_on sep cs of
              [] \<Rightarrow> [[c]]
            | piece # pieces \<Rightarrow> (c # piece) # pieces))"

text \<open>\<open>pieces.filter(Boolean)\<close> on strings keeps the non-empty ones.\<close>

definition filter_Boolean :: "string list \<Rightarrow> string list" where
  "filter_Boolean pieces = filter (\<lambda>s. truthy (JString s)) pieces"

section \<open>Nodes, pages and the framework's calls\<close>

text \<open>The object literal \<open>fieldData\<close> of \<open>onCreateNode\<close>.\<close>

record field_data =
  slug :: js_value
  title :: js_value
  releaseDate :: js_value
  banner :: js_value
  description :: js_value

text \<open>The object literal \<open>minimalBlogConfig\<close> of \<open>sourceNodes\<close>.\<close>

record minimal_blog_config =
  storiesPath :: string
  externalLinks :: "(string \<times> string) list"
  navigation :: "(string \<times> string) list"

text \<open>
  A frontmatter object is read by property name; an absent property reads as
  \<open>undefined\<close>.
\<close>

type_synonym js_object = "string \<Rightarrow> js_value"

text \<open>
  What a node carries beside the fields every node has: a File node its
  \<open>sourceInstanceName\<close>, an Mdx node its \<open>frontmatter\<close>, the nodes this module
  creates their spread object literal.
\<close>

datatype node_fields =
    FileFields js_value
  | MdxFields js_object
  | StoryPageFields field_data
  | BlogConfigFields minimal_blog_config
  | NoFields

record node_internal =
  internal_type :: string
  contentDigest :: string
  content :: string
  internal_description :: "string option"

record gatsby_node =
  node_id :: string
  parent :: "string option"
  children :: "string list"
  internal :: node_internal
  own_fields :: node_fields

text \<open>Property reads on a node; a property the node does not have is \<open>undefined\<close>.\<close>

definition sourceInstanceName :: "gatsby_node \<Rightarrow> js_value" where
  "sourceInstanceName n = (case own_fields n of FileFields s \<Rightarrow> s | _ \<Rightarrow> JUndefined)"

definition frontmatter :: "gatsby_node \<Rightarrow> js_object option" where
  "frontmatter n = (case own_fields n of MdxFields fm \<Rightarrow> Some fm | _ \<Rightarrow> None)"

definition source_slug :: "gatsby_node \<Rightarrow> js_value" where
  "source_slug n = (case own_fields n of StoryPageFields fd \<Rightarrow> slug fd | _ \<Rightarrow> JUndefined)"

definition source_title :: "gatsby_node \<Rightarrow> js_value" where
  "source_title n = (case own_fields n of StoryPageFields fd \<Rightarrow> title fd | _ \<Rightarrow> JUndefined)"

record page_context =
  breadcrumbs :: "string list"
  context_slug :: "string option"
  formatString :: string

record page =
  path :: string
  component :: string
  pageContext :: page_context

text \<open>The result of the query of \<open>createPages\<close>: \<open>{ errors, data: { allStoryPage: { nodes } } }\<close>.\<close>

record query_node =
  page_slug :: string

record all_story_page =
  nodes :: "query_node list"

record query_data =
  allStoryPage :: all_story_page

record gql_result =
  errors :: "string list option"
  data :: "query_data option"

text \<open>The arguments of \<open>createFieldExtension\<close> and \<open>createTypes\<close>.\<close>

record field_extension =
  ext_name :: string
  ext_args :: "(string \<times> string) list"

datatype type_kind = ObjectType | InterfaceType

record field_def =
  field_name :: string
  field_args :: "(string \<times> string) list"
  field_type :: string
  directive :: "(string \<times> (string \<times> string) list) option"

record type_def =
  type_kind :: type_kind
  type_name :: string
  implements :: "string list"
  type_directives :: "string list"
  type_fields :: "field_def list"

text \<open>Every call a hook makes into the framework, in the order it is made.\<close>

datatype call =
    CreateFieldExtension field_extension
  | CreateTypes "type_def list"
  | CreateNode gatsby_node
  | CreateParentChildLink gatsby_node "gatsby_node option"
  | CreatePage page
  | Graphql string
  | PanicOnBuild string "string list"

datatype call_kind =
  createFieldExtensionK | createTypesK | createNodeK | createParentChildLinkK
  | createPageK | graphqlK | panicOnBuildK

fun kind_of :: "call \<Rightarrow> call_kind" where
  "kind_of (CreateFieldExtension _) = createFieldExtensionK"
| "kind_of (CreateTypes _) = createTypesK"
| "kind_of (CreateNode _) = createNodeK"
| "kind_of (CreateParentChildLink _ _) = createParentChildLinkK"
| "kind_of (CreatePage _) = createPageK"
| "kind_of (Graphql _) = graphqlK"
| "kind_of (PanicOnBuild _ _) = panicOnBuildK"

text \<open>
  The build's state as the hooks see it: the node store that \<open>getNode\<close> reads and
  \<open>createNode\<close> writes, and the calls made so far.
\<close>

record build_state =
  store :: "string \<rightharpoonup> gatsby_node"
  calls :: "call list"

datatype js_error = TypeError

datatype outcome = Returned | Threw js_error

definition getNode :: "build_state \<Rightarrow> string option \<Rightarrow> gatsby_node option" where
  "getNode st i = (case i of None \<Rightarrow> None | Some k \<Rightarrow> store st k)"

definition createNode :: "gatsby_node \<Rightarrow> build_state \<Rightarrow> build_state" where
  "createNode n st = st\<lparr>store := (store st)(node_id n \<mapsto> n), calls := calls st @ [CreateNode n]\<rparr>"

definition createParentChildLink ::
  "gatsby_node \<Rightarrow> gatsby_node option \<Rightarrow> build_state \<Rightarrow> build_state" where
  "createParentChildLink p c st = st\<lparr>calls := calls st @ [CreateParentChildLink p c]\<rparr>"

definition createPage :: "page \<Rightarrow> build_state \<Rightarrow> build_state" where
  "createPage p st = st\<lparr>calls := calls st @ [CreatePage p]\<rparr>"

definition createFieldExtension :: "field_extension \<Rightarrow> build_state \<Rightarrow> build_state" where
  "createFieldExtension e st = st\<lparr>calls := calls st @ [CreateFieldExtension e]\<rparr>"

definition createTypes :: "type_def list \<Rightarrow> build_state \<Rightarrow> build_state" where
  "createTypes ts st = st\<lparr>calls := calls st @ [CreateTypes ts]\<rparr>"

definition panicOnBuild :: "string \<Rightarrow> string list \<Rightarrow> build_state \<Rightarrow> build_state" where
  "panicOnBuild msg errs st = st\<lparr>calls := calls st @ [PanicOnBuild msg errs]\<rparr>"

definition run_graphql ::
  "(string \<Rightarrow> gql_result) \<Rightarrow> string \<Rightarrow> build_state \<Rightarrow> gql_result \<times> build_state" where
  "run_graphql graphql q st = (graphql q, st\<lparr>calls := calls st @ [Graphql q]\<rparr>)"

section \<open>createSchemaCustomization\<close>

text \<open>
  \<open>slugify\<close>, the resolver of the field extension of the same name. \<open>kebabCase\<close> is
  lodash's function, a parameter here: it takes any value and returns a string.
\<close>

definition slugify :: "(js_value \<Rightarrow> string) \<Rightarrow> gatsby_node \<Rightarrow> string" where
  "slugify kebabCase source =
     (let slug = (if truthy (source_slug source) then source_slug source
                  else JString (kebabCase (source_title source)))
      in replace_slash_runs (slash # to_string slug))"

definition slugify_extension :: field_extension where
  "slugify_extension = \<lparr>ext_name = ''slugify'', ext_args = []\<rparr>"

definition mdxpassthrough_extension :: field_extension where
  "mdxpassthrough_extension =
     \<lparr>ext_name = ''mdxpassthrough'', ext_args = [(''fieldName'', ''String!'')]\<rparr>"

text \<open>
  The type definitions handed to \<open>createTypes\<close>, field by field: name, arguments, type
  and directive.
\<close>

definition fld ::
  "string \<Rightarrow> string \<Rightarrow> (string \<times> (string \<times> string) list) option \<Rightarrow> field_def" where
  "fld n t d = \<lparr>field_name = n, field_args = [], field_type = t, directive = d\<rparr>"

definition type_defs :: "type_def list" where
  "type_defs =
    [\<lparr>type_kind = ObjectType, type_name = ''StoryPageTag'', implements = [],
      type_directives = [],
      type_fields = [fld ''name'' ''String'' None, fld ''slug'' ''String'' None]\<rparr>,
     \<lparr>type_kind = InterfaceType, type_name = ''StoryPage'', implements = [],
      type_directives = [''nodeInterface''],
      type_fields =
        [fld ''id'' ''ID!'' None,
         fld ''slug'' ''String!'' (Some (''slugify'', [])),
         fld ''title'' ''String!'' None,
         fld ''releaseDate'' ''Date!'' (Some (''dateformat'', [])),
         (fld ''excerpt'' ''String!'' None)\<lparr>field_args := [(''pruneLength'', ''Int = 160'')]\<rparr>,
         fld ''body'' ''String!'' None,
         fld ''timeToRead'' ''Int'' None,
         fld ''tags'' ''[StoryPageTag]'' None,
         fld ''banner'' ''File'' (Some (''fileByRelativePath'', [])),
         fld ''description'' ''String'' None]\<rparr>,
     \<lparr>type_kind = ObjectType, type_name = ''MdxStoryPage'',
      implements = [''Node'', ''StoryPage''],
      type_directives = [],
      type_fields =
        [fld ''slug'' ''String!'' (Some (''slugify'', [])),
         fld ''title'' ''String!'' None,
         fld ''releaseDate'' ''Date!'' (Some (''dateformat'', [])),
         (fld ''excerpt'' ''String!'' (Some (''mdxpassthrough'', [(''fieldName'', ''excerpt'')])))
           \<lparr>field_args := [(''pruneLength'', ''Int = 140'')]\<rparr>,
         fld ''body'' ''String!'' (Some (''mdxpassthrough'', [(''fieldName'', ''body'')])),
         fld ''timeToRead'' ''Int'' (Some (''mdxpassthrough'', [(''fieldName'', ''timeToRead'')])),
         fld ''tags'' ''[StoryPageTag]'' None,
         fld ''banner'' ''File'' (Some (''fileByRelativePath'', [])),
         fld ''description'' ''String'' None]\<rparr>,
     \<lparr>type_kind = ObjectType, type_name = ''MinimalBlogConfig'', implements = [''Node''],
      type_directives = [],
      type_fields =
        [fld ''storiesPath'' ''String!'' None,
         fld ''externalLinks'' ''[ExternalLink!]!'' None,
         fld ''navigation'' ''[NavigationEntry!]!'' None]\<rparr>,
     \<lparr>type_kind = ObjectType, type_name = ''ExternalLink'', implements = [],
      type_directives = [],
      type_fields = [fld ''name'' ''String!'' None, fld ''url'' ''String!'' None]\<rparr>,
     \<lparr>type_kind = ObjectType, type_name = ''NavigationEntry'', implements = [],
      type_directives = [],
      type_fields = [fld ''title'' ''String!'' None, fld ''slug'' ''String!'' None]\<rparr>]"

text \<open>
  The hook registers the two field extensions and the types. The resolver of
  \<open>mdxpassthrough\<close> hands the field to the resolver the Mdx plugin gave the \<open>Mdx\<close> type; it
  computes nothing of its own and has no model here.
\<close>

definition createSchemaCustomization :: "build_state \<Rightarrow> outcome \<times> build_state" where
  "createSchemaCustomization st =
     (let st1 = createFieldExtension slugify_extension st;
          st2 = createFieldExtension mdxpassthrough_extension st1;
          st3 = createTypes type_defs st2
      in (Returned, st3))"

section \<open>sourceNodes\<close>

text \<open>
  \<open>createContentDigest\<close> is the framework's and \<open>JSON.stringify\<close> the language's; both
  are parameters, applied to the object literal the hook built.
\<close>

definition sourceNodes ::
  "(node_fields \<Rightarrow> string) \<Rightarrow> (node_fields \<Rightarrow> string) \<Rightarrow> build_state \<Rightarrow> outcome \<times> build_state" where
  "sourceNodes createContentDigest stringify st =
     (let minimalBlogConfig =
            \<lparr>storiesPath = ''/stories'', externalLinks = [], navigation = []\<rparr>
      in (Returned,
          createNode
            \<lparr>node_id = ''site >>> config'',
             parent = None,
             children = [],
             internal =
               \<lparr>internal_type = ''MinimalBlogConfig'',
                contentDigest = createContentDigest (BlogConfigFields minimalBlogConfig),
                content = stringify (BlogConfigFields minimalBlogConfig),
                internal_description = None\<rparr>,
             own_fields = BlogConfigFields minimalBlogConfig\<rparr>
            st))"

section \<open>onCreateNode\<close>

text \<open>
  Reading a property of \<open>undefined\<close> throws a TypeError: \<open>fileNode.sourceInstanceName\<close>
  when \<open>getNode\<close> finds no parent, \<open>node.frontmatter.slug\<close> when the node has no
  frontmatter.
\<close>

definition onCreateNode ::
  "(string \<Rightarrow> string) \<Rightarrow> (node_fields \<Rightarrow> string) \<Rightarrow> (node_fields \<Rightarrow> string) \<Rightarrow>
   gatsby_node \<Rightarrow> build_state \<Rightarrow> outcome \<times> build_state" where
  "onCreateNode createNodeId createContentDigest stringify node st =
     (if internal_type (internal node) \<noteq> ''Mdx'' then (Returned, st)
      else
        (case getNode st (parent node) of
           None \<Rightarrow> (Threw TypeError, st)
         | Some fileNode \<Rightarrow>
             (let source = sourceInstanceName fileNode in
              if source = JString ''stories'' then
                (case frontmatter node of
                   None \<Rightarrow> (Threw TypeError, st)
                 | Some fm \<Rightarrow>
                     (let fieldData =
                            \<lparr>slug = (if truthy (fm ''slug'') then fm ''slug'' else JUndefined),
                             title = fm ''title'',
                             releaseDate = fm ''releaseDate'',
                             banner = fm ''banner'',
                             description = fm ''description''\<rparr>;
                          mdxStoryPageId = createNodeId (node_id node @ '' >>> MdxStoryPage'');
                          st1 =
                            createNode
                              \<lparr>node_id = mdxStoryPageId,
                               parent = Some (node_id node),
                               children = [],
                               internal =
                                 \<lparr>internal_type = ''MdxStoryPage'',
                                  contentDigest = createContentDigest (StoryPageFields fieldData),
                                  content = stringify (StoryPageFields fieldData),
                                  internal_description =
                                    Some ''Mdx implementation of the StoryPage interface''\<rparr>,
                               own_fields = StoryPageFields fieldData\<rparr>
                              st
                      in (Returned,
                          createParentChildLink node (getNode st1 (Some mdxStoryPageId)) st1)))
              else (Returned, st))))"

section \<open>createPages\<close>

text \<open>\<open>require.resolve\<close> of the two templates, named by the module it resolves.\<close>

definition storiesPageTemplate :: string where
  "storiesPageTemplate = ''./src/templates/stories-page-query.js''"

definition storyPageTemplate :: string where
  "storyPageTemplate = ''./src/templates/story-page-query.js''"

definition story_pages_query :: string where
  "story_pages_query =
     ''query { allStoryPage(sort: { fields: releaseDate, order: DESC }) { nodes { slug } } }''"

definition stories_listing_page :: page where
  "stories_listing_page =
     \<lparr>path = ''/stories'',
      component = storiesPageTemplate,
      pageContext =
        \<lparr>breadcrumbs = [''stories''], context_slug = None, formatString = ''DD.MM.YYYY''\<rparr>\<rparr>"

text \<open>The body of the \<open>forEach\<close> callback.\<close>

definition create_story_page :: "query_node \<Rightarrow> build_state \<Rightarrow> build_state" where
  "create_story_page page st =
     (let breadcrumbs = filter_Boolean (split_on slash (page_slug page))
      in createPage
           \<lparr>path = replace_slash_runs (page_slug page),
            component = storyPageTemplate,
            pageContext =
              \<lparr>breadcrumbs = breadcrumbs,
               context_slug = Some (page_slug page),
               formatString = ''DD.MM.YYYY''\<rparr>\<rparr>
           st)"

text \<open>
  \<open>result.errors\<close> is absent or an array, and an array is truthy also when empty.
  With neither errors nor data, \<open>result.data.allStoryPage\<close> throws.
\<close>

definition createPages :: "(string \<Rightarrow> gql_result) \<Rightarrow> build_state \<Rightarrow> outcome \<times> build_state" where
  "createPages graphql st =
     (let st1 = createPage stories_listing_page st;
          (result, st2) = run_graphql graphql story_pages_query st1
      in (case errors result of
            Some errs \<Rightarrow>
              (Returned, panicOnBuild ''There was an error loading your pages'' errs st2)
          | None \<Rightarrow>
              (case data result of
                 None \<Rightarrow> (Threw TypeError, st2)
               | Some d \<Rightarrow> (Returned, fold create_story_page (nodes (allStoryPage d)) st2))))"

section \<open>The query and the words of the specification\<close>

text \<open>
  What the query of \<open>createPages\<close> returns when it succeeds. The schema declares
  \<open>slug: String! @slugify\<close> on \<open>StoryPage\<close> and on \<open>MdxStoryPage\<close>, so the framework
  resolves the \<open>slug\<close> of every node of \<open>allStoryPage\<close> with \<open>slugify\<close>; \<open>sources\<close>
  are the story nodes in the order the query sorts them.
\<close>

definition story_query_result :: "(js_value \<Rightarrow> string) \<Rightarrow> gatsby_node list \<Rightarrow> gql_result" where
  "story_query_result kebabCase sources =
     \<lparr>errors = None,
      data = Some \<lparr>allStoryPage =
               \<lparr>nodes = map (\<lambda>source. \<lparr>page_slug = slugify kebabCase source\<rparr>) sources\<rparr>\<rparr>\<rparr>"

text \<open>
  "Every run of consecutive slashes collapsed to a single slash", said directly: a slash
  that another slash follows is dropped.
\<close>

fun collapse_slashes :: "string \<Rightarrow> string" where
  "collapse_slashes (c # d # cs) =
     (if c = slash \<and> d = slash then collapse_slashes (d # cs)
      else c # collapse_slashes (d # cs))"
| "collapse_slashes cs = cs"

text \<open>A string has two consecutive slashes somewhere.\<close>

fun adjacent_slashes :: "string \<Rightarrow> bool" where
  "adjacent_slashes (c # d # cs) = ((c = slash \<and> d = slash) \<or> adjacent_slashes (d # cs))"
| "adjacent_slashes cs = False"

text \<open>Joining pieces with a separator, as \<open>pieces.join(sep)\<close> does.\<close>

fun join_with :: "char \<Rightarrow> string list \<Rightarrow> string" where
  "join_with sep [] = []"
| "join_with sep [p] = p"
| "join_with sep (p # q # ps) = p @ sep # join_with sep (q # ps)"

text \<open>The pages of the \<open>createPage\<close> calls among some calls, in order.\<close>

fun created_pages :: "call list \<Rightarrow> page list" where
  "created_pages [] = []"
| "created_pages (CreatePage p # cs) = p # created_pages cs"
| "created_pages (c # cs) = created_pages cs"

section \<open>A small build\<close>

text \<open>
  Concrete inputs: a File node of the \<open>stories\<close> source, an Mdx node below it whose
  frontmatter has a title and no slug, two story nodes, and results of the query.
  \<open>example_kebabCase\<close> is lodash's function on titles that are in kebab case already
  and on absent ones.
\<close>

fun example_kebabCase :: "js_value \<Rightarrow> string" where
  "example_kebabCase (JString s) = s"
| "example_kebabCase v = []"

definition example_createNodeId :: "string \<Rightarrow> string" where
  "example_createNodeId s = s"

definition example_digest :: "node_fields \<Rightarrow> string" where
  "example_digest f = ''0cc175b9''"

definition example_stringify :: "node_fields \<Rightarrow> string" where
  "example_stringify f = ''json''"

definition example_file :: gatsby_node where
  "example_file =
     \<lparr>node_id = ''file-1'', parent = None, children = [''mdx-1''],
      internal = \<lparr>internal_type = ''File'', contentDigest = ''f1'', content = [],
                  internal_description = None\<rparr>,
      own_fields = FileFields (JString ''stories'')\<rparr>"

definition example_frontmatter :: js_object where
  "example_frontmatter k = (if k = ''title'' then JString ''hello-world'' else JUndefined)"

definition example_mdx :: gatsby_node where
  "example_mdx =
     \<lparr>node_id = ''mdx-1'', parent = Some ''file-1'', children = [],
      internal = \<lparr>internal_type = ''Mdx'', contentDigest = ''m1'', content = [],
                  internal_description = None\<rparr>,
      own_fields = MdxFields example_frontmatter\<rparr>"

definition example_state :: build_state where
  "example_state = \<lparr>store = [''file-1'' \<mapsto> example_file, ''mdx-1'' \<mapsto> example_mdx], calls = []\<rparr>"

definition example_story :: "js_value \<Rightarrow> js_value \<Rightarrow> gatsby_node" where
  "example_story s t =
     \<lparr>node_id = ''story'', parent = Some ''mdx-1'', children = [],
      internal = \<lparr>internal_type = ''MdxStoryPage'', contentDigest = ''s1'', content = [],
                  internal_description = None\<rparr>,
      own_fields = StoryPageFields
        \<lparr>slug = s, title = t, releaseDate = JString ''2020-05-01'', banner = JUndefined,
         description = JNull\<rparr>\<rparr>"

definition example_sources :: "gatsby_node list" where
  "example_sources =
     [example_story JUndefined (JString ''hello-world''),
      example_story (JString ''notes//first'') (JString ''first'')]"

definition example_graphql :: "string \<Rightarrow> gql_result" where
  "example_graphql q = story_query_result example_kebabCase example_sources"

definition example_graphql_raw :: "string \<Rightarrow> gql_result" where
  "example_graphql_raw q =
     \<lparr>errors = None, data = Some \<lparr>allStoryPage = \<lparr>nodes = [\<lparr>page_slug = ''/a//b/''\<rparr>]\<rparr>\<rparr>\<rparr>"

definition example_graphql_slashes :: "string \<Rightarrow> gql_result" where
  "example_graphql_slashes q =
     \<lparr>errors = None,
      data = Some \<lparr>allStoryPage =
               \<lparr>nodes = [\<lparr>page_slug = ''/a//b''\<rparr>, \<lparr>page_slug = ''/a/b''\<rparr>]\<rparr>\<rparr>\<rparr>"

definition example_graphql_failed :: "string \<Rightarrow> gql_result" where
  "example_graphql_failed q = \<lparr>errors = Some [''Cannot query field''], data = None\<rparr>"

section \<open>Slashes, pieces and the loop of createPages\<close>

lemma collapse_slash_run:
  "collapse_slashes (slash # cs) = slash # collapse_slashes (dropWhile (\<lambda>x. x = slash) cs)"
proof (induction cs)
  case Nil
  show ?case by simp
next
  case (Cons d ds)
  show ?case
  proof (cases "d = slash")
    case True
    then show ?thesis using Cons.IH by simp
  next
    case False
    then show ?thesis by simp
  qed
qed

lemma collapse_other:
  "\<not> (c = slash \<and> (case cs of [] \<Rightarrow> False | d # _ \<Rightarrow> d = slash)) \<Longrightarrow>
   collapse_slashes (c # cs) = c # collapse_slashes cs"
  by (cases cs) auto

lemma replace_is_collapse: "replace_slash_runs s = collapse_slashes s"
proof (induction s rule: replace_slash_runs.induct)
  case 1
  show ?case by simp
next
  case (2 c cs)
  show ?case
  proof (cases "c = slash \<and> (case cs of [] \<Rightarrow> False | d # _ \<Rightarrow> d = slash)")
    case True
    then have "replace_slash_runs (c # cs) = slash # collapse_slashes (dropWhile (\<lambda>x. x = slash) cs)"
      using 2 by simp
    with True show ?thesis by (simp add: collapse_slash_run del: replace_slash_runs.simps)
  next
    case False
    then have "replace_slash_runs cs = collapse_slashes cs"
      by (rule 2(2))
    moreover from False have "replace_slash_runs (c # cs) = c # replace_slash_runs cs"
      by (auto split: list.splits)
    moreover from False have "collapse_slashes (c # cs) = c # collapse_slashes cs"
      by (rule collapse_other)
    ultimately show ?thesis by (simp only:)
  qed
qed

lemma collapse_head: "\<exists>rest. collapse_slashes (c # cs) = c # rest"
  by (induction "c # cs" arbitrary: c cs rule: collapse_slashes.induct) auto

lemma collapse_no_adjacent: "\<not> adjacent_slashes (collapse_slashes s)"
proof (induction s rule: collapse_slashes.induct)
  case (1 c d cs)
  then show ?case
    using collapse_head [of d cs] by (auto split: if_splits)
qed simp_all

lemma collapse_fixed: "\<not> adjacent_slashes s \<Longrightarrow> collapse_slashes s = s"
  by (induction s rule: collapse_slashes.induct) auto

lemma adjacent_slashes_iff:
  "adjacent_slashes s \<longleftrightarrow> (\<exists>i. Suc i < length s \<and> s ! i = slash \<and> s ! Suc i = slash)"
proof (induction s rule: adjacent_slashes.induct)
  case (1 c d cs)
  show ?case
  proof
    assume "adjacent_slashes (c # d # cs)"
    then consider "c = slash \<and> d = slash" | "adjacent_slashes (d # cs)" by auto
    then show "\<exists>i. Suc i < length (c # d # cs) \<and> (c # d # cs) ! i = slash \<and> (c # d # cs) ! Suc i = slash"
    proof cases
      case 1
      then have "Suc 0 < length (c # d # cs) \<and> (c # d # cs) ! 0 = slash \<and> (c # d # cs) ! Suc 0 = slash"
        by simp
      then show ?thesis by blast
    next
      case 2
      then obtain i where "Suc i < length (d # cs) \<and> (d # cs) ! i = slash \<and> (d # cs) ! Suc i = slash"
        using "1.IH" by blast
      then have "Suc (Suc i) < length (c # d # cs) \<and> (c # d # cs) ! Suc i = slash \<and> (c # d # cs) ! Suc (Suc i) = slash"
        by simp
      then show ?thesis by blast
    qed
  next
    assume "\<exists>i. Suc i < length (c # d # cs) \<and> (c # d # cs) ! i = slash \<and> (c # d # cs) ! Suc i = slash"
    then obtain i where i: "Suc i < length (c # d # cs)" "(c # d # cs) ! i = slash" "(c # d # cs) ! Suc i = slash"
      by blast
    show "adjacent_slashes (c # d # cs)"
    proof (cases i)
      case 0
      with i show ?thesis by simp
    next
      case (Suc j)
      with i have "Suc j < length (d # cs) \<and> (d # cs) ! j = slash \<and> (d # cs) ! Suc j = slash"
        by simp
      then have "adjacent_slashes (d # cs)" using "1.IH" by blast
      then show ?thesis by simp
    qed
  qed
qed simp_all

lemma slugify_collapse:
  "slugify kebabCase source =
     collapse_slashes (slash # (if truthy (source_slug source) then to_string (source_slug source)
                                else kebabCase (source_title source)))"
  by (simp add: slugify_def replace_is_collapse)

lemma slugify_no_adjacent: "\<not> adjacent_slashes (slugify kebabCase source)"
  by (simp only: slugify_collapse collapse_no_adjacent not_False_eq_True)

lemma replace_slugify: "replace_slash_runs (slugify kebabCase source) = slugify kebabCase source"
  by (simp only: replace_is_collapse collapse_fixed [OF slugify_no_adjacent])

lemma split_on_nonempty: "split_on sep s \<noteq> []"
  by (induction s) (auto split: list.splits)

lemma join_split_on: "join_with sep (split_on sep s) = s"
proof (induction s)
  case Nil
  show ?case by simp
next
  case (Cons c cs)
  obtain p ps where ps: "split_on sep cs = p # ps"
    using split_on_nonempty [of sep cs] by (cases "split_on sep cs") auto
  show ?case
  proof (cases "c = sep")
    case True
    with Cons ps show ?thesis by simp
  next
    case False
    with Cons ps show ?thesis by (cases ps) auto
  qed
qed

lemma split_on_pieces: "p \<in> set (split_on sep s) \<Longrightarrow> sep \<notin> set p"
  by (induction s arbitrary: p) (auto split: if_splits list.splits)

lemma filter_Boolean_nonempty: "filter_Boolean pieces = filter (\<lambda>s. s \<noteq> []) pieces"
  by (simp add: filter_Boolean_def)

lemma fold_create_story_page:
  "fold create_story_page ns st =
     st\<lparr>calls := calls st @
        map (\<lambda>n. CreatePage
               \<lparr>path = replace_slash_runs (page_slug n),
                component = storyPageTemplate,
                pageContext =
                  \<lparr>breadcrumbs = filter_Boolean (split_on slash (page_slug n)),
                   context_slug = Some (page_slug n),
                   formatString = ''DD.MM.YYYY''\<rparr>\<rparr>) ns\<rparr>"
  by (induction ns arbitrary: st) (simp_all add: create_story_page_def createPage_def)

lemma createPages_failed:
  "errors (graphql story_pages_query) = Some errs \<Longrightarrow>
   createPages graphql st =
     (Returned,
      st\<lparr>calls := calls st @
         [CreatePage stories_listing_page, Graphql story_pages_query,
          PanicOnBuild ''There was an error loading your pages'' errs]\<rparr>)"
  by (simp add: createPages_def run_graphql_def createPage_def panicOnBuild_def)

lemma createPages_ok:
  "errors (graphql story_pages_query) = None \<Longrightarrow>
   data (graphql story_pages_query) = Some d \<Longrightarrow>
   createPages graphql st =
     (Returned,
      st\<lparr>calls := calls st @
         [CreatePage stories_listing_page, Graphql story_pages_query] @
         map (\<lambda>n. CreatePage
               \<lparr>path = replace_slash_runs (page_slug n),
                component = storyPageTemplate,
                pageContext =
                  \<lparr>breadcrumbs = filter_Boolean (split_on slash (page_slug n)),
                   context_slug = Some (page_slug n),
                   formatString = ''DD.MM.YYYY''\<rparr>\<rparr>) (nodes (allStoryPage d))\<rparr>)"
  by (simp add: createPages_def run_graphql_def createPage_def fold_create_story_page)

lemma createPages_no_data:
  "errors (graphql story_pages_query) = None \<Longrightarrow>
   data (graphql story_pages_query) = None \<Longrightarrow>
   createPages graphql st =
     (Threw TypeError,
      st\<lparr>calls := calls st @ [CreatePage stories_listing_page, Graphql story_pages_query]\<rparr>)"
  by (simp add: createPages_def run_graphql_def createPage_def)

section \<open>createPages and slugify: the claims\<close>

lemma created_pages_append: "created_pages (xs @ ys) = created_pages xs @ created_pages ys"
  by (induction xs rule: created_pages.induct) simp_all

text \<open>
  Claim C2: when the query of \<open>createPages\<close> returns errors, \<open>reporter.panicOnBuild\<close> is
  called with them and \<open>createPages\<close> returns; the only page it has created is the
  \<open>/stories\<close> listing, no story page, and nothing else is attempted.
\<close>

theorem createPages_query_errors:
  assumes "errors (graphql story_pages_query) = Some errs"
  shows "createPages graphql st =
           (Returned,
            st\<lparr>calls := calls st @
               [CreatePage stories_listing_page, Graphql story_pages_query,
                PanicOnBuild ''There was an error loading your pages'' errs]\<rparr>)
         \<and> created_pages (calls (snd (createPages graphql st))) =
             created_pages (calls st) @ [stories_listing_page]"
  using assms by (simp add: createPages_failed created_pages_append)

theorem createPages_query_errors_witness:
  "errors (example_graphql_failed story_pages_query) = Some [''Cannot query field'']
   \<and> createPages example_graphql_failed example_state =
       (Returned,
        example_state\<lparr>calls :=
           [CreatePage stories_listing_page, Graphql story_pages_query,
            PanicOnBuild ''There was an error loading your pages'' [''Cannot query field'']]\<rparr>)
   \<and> created_pages (calls (snd (createPages example_graphql_failed example_state))) =
       [stories_listing_page]"
  using createPages_query_errors [of example_graphql_failed "[''Cannot query field'']" example_state]
  by (simp add: example_graphql_failed_def example_state_def)

text \<open>
  Claim C8: on every run, whatever the query returns (errors included), the first call of
  \<open>createPages\<close> creates the \<open>/stories\<close> listing page, with the stories template and
  the breadcrumbs \<open>['stories']\<close>, and only then the query runs.
\<close>

theorem createPages_listing_first:
  "(\<exists>rest. calls (snd (createPages graphql st)) =
            calls st @ CreatePage stories_listing_page # Graphql story_pages_query # rest)
   \<and> path stories_listing_page = ''/stories''
   \<and> component stories_listing_page = storiesPageTemplate
   \<and> breadcrumbs (pageContext stories_listing_page) = [''stories'']"
proof -
  have "\<exists>rest. calls (snd (createPages graphql st)) =
            calls st @ CreatePage stories_listing_page # Graphql story_pages_query # rest"
  proof (cases "errors (graphql story_pages_query)")
    case (Some errs)
    then show ?thesis by (simp add: createPages_failed)
  next
    case None
    then show ?thesis
      by (cases "data (graphql story_pages_query)")
         (simp_all add: createPages_no_data createPages_ok)
  qed
  then show ?thesis by (simp add: stories_listing_page_def)
qed

text \<open>
  Claim C5: when the query succeeds, \<open>createPages\<close> creates, after the listing page, one
  page for every node of the result, in order: its path is the node's slug with every run
  of slashes collapsed, its component the story template, and its context holds the slug
  as it was, the non-empty pieces of the slug split on the slash, and \<open>DD.MM.YYYY\<close>.
\<close>

theorem createPages_story_pages:
  assumes "errors (graphql story_pages_query) = None"
    and "data (graphql story_pages_query) = Some d"
  shows "createPages graphql st =
     (Returned,
      st\<lparr>calls := calls st @
         [CreatePage stories_listing_page, Graphql story_pages_query] @
         map (\<lambda>n. CreatePage
               \<lparr>path = collapse_slashes (page_slug n),
                component = storyPageTemplate,
                pageContext =
                  \<lparr>breadcrumbs = filter (\<lambda>piece. piece \<noteq> []) (split_on slash (page_slug n)),
                   context_slug = Some (page_slug n),
                   formatString = ''DD.MM.YYYY''\<rparr>\<rparr>) (nodes (allStoryPage d))\<rparr>)"
  using assms by (simp add: createPages_ok replace_is_collapse filter_Boolean_nonempty)

theorem createPages_story_pages_witness:
  "errors (example_graphql_raw story_pages_query) = None
   \<and> createPages example_graphql_raw example_state =
     (Returned,
      example_state\<lparr>calls :=
         [CreatePage stories_listing_page, Graphql story_pages_query,
          CreatePage
            \<lparr>path = ''/a/b/'', component = storyPageTemplate,
             pageContext =
               \<lparr>breadcrumbs = [''a'', ''b''], context_slug = Some ''/a//b/'',
                formatString = ''DD.MM.YYYY''\<rparr>\<rparr>]\<rparr>)"
  using createPages_story_pages [of example_graphql_raw
      "\<lparr>allStoryPage = \<lparr>nodes = [\<lparr>page_slug = ''/a//b/''\<rparr>]\<rparr>\<rparr>" example_state]
  by (simp add: example_graphql_raw_def example_state_def)

text \<open>
  Claim C1 says that on every successful run the path of a node's page is the node's slug
  and that no two distinct slugs map to the same page. The path is the slug after the
  replacement of slash runs: for the slugs \<open>/a//b\<close> and \<open>/a/b\<close> both pages get the path
  \<open>/a/b\<close>.
\<close>

theorem createPages_slug_path_counterexample:
  "errors (example_graphql_slashes story_pages_query) = None
   \<and> data (example_graphql_slashes story_pages_query) =
       Some \<lparr>allStoryPage = \<lparr>nodes = [\<lparr>page_slug = ''/a//b''\<rparr>, \<lparr>page_slug = ''/a/b''\<rparr>]\<rparr>\<rparr>
   \<and> fst (createPages example_graphql_slashes example_state) = Returned
   \<and> map path (created_pages (calls (snd (createPages example_graphql_slashes example_state)))) =
       [''/stories'', ''/a/b'', ''/a/b'']
   \<and> ''/a//b'' \<noteq> ''/a/b''"
  by (simp add: example_graphql_slashes_def createPages_def run_graphql_def createPage_def
      create_story_page_def example_state_def stories_listing_page_def)

text \<open>
  Claim C1, as the code has it: on every successful run each node of the result yields
  exactly one \<open>createPage\<close> call, which carries the node's slug in its context and has
  the slug with every run of slashes collapsed as its path; two nodes get the same path
  exactly when their slugs agree after collapsing. For a slug without consecutive slashes
  the path is the slug itself, so among such slugs no two distinct ones map to the same
  page; every slug that \<open>slugify\<close> resolves is such a slug.
\<close>

theorem createPages_one_page_per_node:
  assumes "errors (graphql story_pages_query) = None"
    and "data (graphql story_pages_query) = Some d"
  shows "fst (createPages graphql st) = Returned
     \<and> (\<exists>pages.
          calls (snd (createPages graphql st)) =
            calls st @ [CreatePage stories_listing_page, Graphql story_pages_query] @
            map CreatePage pages
        \<and> map (\<lambda>p. context_slug (pageContext p)) pages =
            map (\<lambda>n. Some (page_slug n)) (nodes (allStoryPage d))
        \<and> map path pages = map (\<lambda>n. collapse_slashes (page_slug n)) (nodes (allStoryPage d))
        \<and> (\<forall>i < length pages.
              \<not> adjacent_slashes (page_slug (nodes (allStoryPage d) ! i))
              \<longrightarrow> path (pages ! i) = page_slug (nodes (allStoryPage d) ! i))
        \<and> (\<forall>i < length pages. \<forall>j < length pages.
              (path (pages ! i) = path (pages ! j)) =
              (collapse_slashes (page_slug (nodes (allStoryPage d) ! i)) =
               collapse_slashes (page_slug (nodes (allStoryPage d) ! j))))
        \<and> (\<forall>i < length pages. \<forall>j < length pages.
              \<not> adjacent_slashes (page_slug (nodes (allStoryPage d) ! i))
              \<longrightarrow> \<not> adjacent_slashes (page_slug (nodes (allStoryPage d) ! j))
              \<longrightarrow> page_slug (nodes (allStoryPage d) ! i) \<noteq> page_slug (nodes (allStoryPage d) ! j)
              \<longrightarrow> path (pages ! i) \<noteq> path (pages ! j)))
     \<and> \<not> adjacent_slashes (slugify kebabCase source)"
proof -
  let ?page = "\<lambda>n. \<lparr>path = replace_slash_runs (page_slug n),
                component = storyPageTemplate,
                pageContext =
                  \<lparr>breadcrumbs = filter_Boolean (split_on slash (page_slug n)),
                   context_slug = Some (page_slug n),
                   formatString = ''DD.MM.YYYY''\<rparr>\<rparr>"
  let ?ns = "nodes (allStoryPage d)"
  let ?pages = "map ?page ?ns"
  have run: "createPages graphql st =
      (Returned, st\<lparr>calls := calls st @
         [CreatePage stories_listing_page, Graphql story_pages_query] @ map CreatePage ?pages\<rparr>)"
    using assms by (simp add: createPages_ok comp_def)
  have slugs: "map (\<lambda>p. context_slug (pageContext p)) ?pages = map (\<lambda>n. Some (page_slug n)) ?ns"
    by (simp add: comp_def)
  have paths: "map path ?pages = map (\<lambda>n. collapse_slashes (page_slug n)) ?ns"
    by (simp add: comp_def replace_is_collapse)
  have at: "path (?pages ! i) = collapse_slashes (page_slug (?ns ! i))" if "i < length ?pages" for i
    using that by (simp add: replace_is_collapse)
  have same: "\<forall>i < length ?pages.
      \<not> adjacent_slashes (page_slug (?ns ! i)) \<longrightarrow> path (?pages ! i) = page_slug (?ns ! i)"
    using at by (simp add: collapse_fixed)
  have shared: "\<forall>i < length ?pages. \<forall>j < length ?pages.
      (path (?pages ! i) = path (?pages ! j)) =
      (collapse_slashes (page_slug (?ns ! i)) = collapse_slashes (page_slug (?ns ! j)))"
    using at by simp
  have inj: "\<forall>i < length ?pages. \<forall>j < length ?pages.
      \<not> adjacent_slashes (page_slug (?ns ! i))
      \<longrightarrow> \<not> adjacent_slashes (page_slug (?ns ! j))
      \<longrightarrow> page_slug (?ns ! i) \<noteq> page_slug (?ns ! j)
      \<longrightarrow> path (?pages ! i) \<noteq> path (?pages ! j)"
    using at by (simp add: collapse_fixed)
  from run have "fst (createPages graphql st) = Returned" by simp
  moreover from run have "calls (snd (createPages graphql st)) =
      calls st @ [CreatePage stories_listing_page, Graphql story_pages_query] @ map CreatePage ?pages"
    by simp
  ultimately show ?thesis
    using slugs paths same shared inj slugify_no_adjacent [of kebabCase source] by blast
qed

theorem createPages_one_page_per_node_witness:
  "errors (example_graphql_slashes story_pages_query) = None
   \<and> fst (createPages example_graphql_slashes example_state) = Returned
   \<and> (\<exists>pages.
        calls (snd (createPages example_graphql_slashes example_state)) =
          [CreatePage stories_listing_page, Graphql story_pages_query] @ map CreatePage pages
      \<and> map (\<lambda>p. context_slug (pageContext p)) pages = [Some ''/a//b'', Some ''/a/b'']
      \<and> map path pages = [''/a/b'', ''/a/b''])"
proof -
  let ?d = "\<lparr>allStoryPage = \<lparr>nodes = [\<lparr>page_slug = ''/a//b''\<rparr>, \<lparr>page_slug = ''/a/b''\<rparr>]\<rparr>\<rparr>"
  have e: "errors (example_graphql_slashes story_pages_query) = None"
    by (simp add: example_graphql_slashes_def)
  have d: "data (example_graphql_slashes story_pages_query) = Some ?d"
    by (simp add: example_graphql_slashes_def)
  have n: "nodes (allStoryPage ?d) = [\<lparr>page_slug = ''/a//b''\<rparr>, \<lparr>page_slug = ''/a/b''\<rparr>]"
    by simp
  have c: "calls example_state = []"
    by (simp add: example_state_def)
  from createPages_one_page_per_node [of example_graphql_slashes ?d example_state, OF e d]
  obtain pages where
    "calls (snd (createPages example_graphql_slashes example_state)) =
       calls example_state @ [CreatePage stories_listing_page, Graphql story_pages_query] @
       map CreatePage pages"
    "map (\<lambda>p. context_slug (pageContext p)) pages =
       map (\<lambda>n. Some (page_slug n)) (nodes (allStoryPage ?d))"
    "map path pages = map (\<lambda>n. collapse_slashes (page_slug n)) (nodes (allStoryPage ?d))"
    and r: "fst (createPages example_graphql_slashes example_state) = Returned"
    by blast
  then have "calls (snd (createPages example_graphql_slashes example_state)) =
          [CreatePage stories_listing_page, Graphql story_pages_query] @ map CreatePage pages
      \<and> map (\<lambda>p. context_slug (pageContext p)) pages = [Some ''/a//b'', Some ''/a/b'']
      \<and> map path pages = [''/a/b'', ''/a/b'']"
    unfolding n c by simp
  then have "\<exists>pages. calls (snd (createPages example_graphql_slashes example_state)) =
          [CreatePage stories_listing_page, Graphql story_pages_query] @ map CreatePage pages
      \<and> map (\<lambda>p. context_slug (pageContext p)) pages = [Some ''/a//b'', Some ''/a/b'']
      \<and> map path pages = [''/a/b'', ''/a/b'']"
    by (rule exI [of _ pages])
  with e r show ?thesis by (intro conjI)
qed

text \<open>
  Claim C4: the slug of a story source is \<open>source.slug\<close> when that is truthy and
  \<open>kebabCase(source.title)\<close> otherwise, behind a slash and with every run of slashes
  collapsed to one; and the page \<open>createPages\<close> creates for the story has exactly this
  string as its path.
\<close>

theorem slugify_commutes_with_pages:
  assumes "graphql story_pages_query = story_query_result kebabCase sources"
  shows "(\<forall>source. slugify kebabCase source =
            collapse_slashes
              (slash # (if truthy (source_slug source) then to_string (source_slug source)
                        else kebabCase (source_title source))))
     \<and> (\<exists>pages.
          calls (snd (createPages graphql st)) =
            calls st @ [CreatePage stories_listing_page, Graphql story_pages_query] @
            map CreatePage pages
        \<and> map path pages = map (slugify kebabCase) sources)"
proof -
  let ?page = "\<lambda>n. \<lparr>path = replace_slash_runs (page_slug n),
                component = storyPageTemplate,
                pageContext =
                  \<lparr>breadcrumbs = filter_Boolean (split_on slash (page_slug n)),
                   context_slug = Some (page_slug n),
                   formatString = ''DD.MM.YYYY''\<rparr>\<rparr>"
  let ?ns = "map (\<lambda>source. \<lparr>page_slug = slugify kebabCase source\<rparr>) sources"
  let ?pages = "map ?page ?ns"
  have e: "errors (graphql story_pages_query) = None"
    and d: "data (graphql story_pages_query) = Some \<lparr>allStoryPage = \<lparr>nodes = ?ns\<rparr>\<rparr>"
    using assms by (simp_all add: story_query_result_def)
  have "calls (snd (createPages graphql st)) =
      calls st @ [CreatePage stories_listing_page, Graphql story_pages_query] @ map CreatePage ?pages"
    using createPages_ok [of graphql _ st, OF e d] by (simp add: comp_def)
  moreover have "map path ?pages = map (slugify kebabCase) sources"
    by (simp add: comp_def replace_slugify)
  ultimately show ?thesis using slugify_collapse by blast
qed

theorem slugify_commutes_with_pages_witness:
  "example_graphql story_pages_query = story_query_result example_kebabCase example_sources
   \<and> slugify example_kebabCase (example_story JUndefined (JString ''hello-world'')) =
       ''/hello-world''
   \<and> slugify example_kebabCase (example_story (JString ''notes//first'') (JString ''first'')) =
       ''/notes/first''
   \<and> (\<exists>pages.
        calls (snd (createPages example_graphql example_state)) =
          [CreatePage stories_listing_page, Graphql story_pages_query] @ map CreatePage pages
      \<and> map path pages = [''/hello-world'', ''/notes/first''])"
proof -
  have g: "example_graphql story_pages_query =
      story_query_result example_kebabCase example_sources"
    by (simp add: example_graphql_def)
  note inst = slugify_commutes_with_pages [of example_graphql example_kebabCase example_sources
      example_state, OF g]
  have a: "slugify example_kebabCase (example_story JUndefined (JString ''hello-world'')) =
       ''/hello-world''"
    using inst by (simp add: example_story_def source_slug_def source_title_def)
  have b: "slugify example_kebabCase
        (example_story (JString ''notes//first'') (JString ''first'')) = ''/notes/first''"
    using inst by (simp add: example_story_def source_slug_def source_title_def)
  have slugs: "map (slugify example_kebabCase) example_sources =
      [''/hello-world'', ''/notes/first'']"
    using a b by (simp add: example_sources_def)
  have c: "calls example_state = []"
    by (simp add: example_state_def)
  from inst g a b show ?thesis unfolding slugs c by auto
qed

text \<open>
  Claim C7: the string \<open>slugify\<close> returns starts with exactly one slash and has no two
  consecutive slashes anywhere. This holds for every source, so in particular when slug
  and title are strings or the slug is absent.
\<close>

theorem slugify_one_leading_slash:
  "\<exists>rest. slugify kebabCase source = slash # rest
     \<and> take 1 rest \<noteq> [slash]
     \<and> \<not> (\<exists>i. Suc i < length (slugify kebabCase source)
              \<and> slugify kebabCase source ! i = slash
              \<and> slugify kebabCase source ! Suc i = slash)"
proof -
  obtain rest where rest: "slugify kebabCase source = slash # rest"
    using collapse_head by (simp only: slugify_collapse) blast
  have na: "\<not> adjacent_slashes (slash # rest)"
    using slugify_no_adjacent [of kebabCase source] unfolding rest .
  then have "take 1 rest \<noteq> [slash]" by (cases rest) auto
  moreover have "\<not> (\<exists>i. Suc i < length (slugify kebabCase source)
              \<and> slugify kebabCase source ! i = slash
              \<and> slugify kebabCase source ! Suc i = slash)"
    using slugify_no_adjacent [of kebabCase source]
      adjacent_slashes_iff [of "slugify kebabCase source"] by blast
  ultimately show ?thesis using rest by blast
qed

section \<open>onCreateNode and the hooks' control paths: the claims\<close>

lemma falsy_iff: "\<not> truthy v \<longleftrightarrow> v \<in> {JUndefined, JNull, JString []}"
  by (cases v) simp_all

lemma onCreateNode_not_mdx:
  "internal_type (internal node) \<noteq> ''Mdx'' \<Longrightarrow>
   onCreateNode createNodeId createContentDigest stringify node st = (Returned, st)"
  by (simp add: onCreateNode_def)

lemma onCreateNode_no_parent:
  "internal_type (internal node) = ''Mdx'' \<Longrightarrow> getNode st (parent node) = None \<Longrightarrow>
   onCreateNode createNodeId createContentDigest stringify node st = (Threw TypeError, st)"
  by (simp add: onCreateNode_def)

lemma onCreateNode_other_source:
  "internal_type (internal node) = ''Mdx'' \<Longrightarrow> getNode st (parent node) = Some fileNode \<Longrightarrow>
   sourceInstanceName fileNode \<noteq> JString ''stories'' \<Longrightarrow>
   onCreateNode createNodeId createContentDigest stringify node st = (Returned, st)"
  by (simp add: onCreateNode_def)

lemma onCreateNode_no_frontmatter:
  "internal_type (internal node) = ''Mdx'' \<Longrightarrow> getNode st (parent node) = Some fileNode \<Longrightarrow>
   sourceInstanceName fileNode = JString ''stories'' \<Longrightarrow> frontmatter node = None \<Longrightarrow>
   onCreateNode createNodeId createContentDigest stringify node st = (Threw TypeError, st)"
  by (simp add: onCreateNode_def)

lemma onCreateNode_story:
  assumes "internal_type (internal node) = ''Mdx''"
    and "getNode st (parent node) = Some fileNode"
    and "sourceInstanceName fileNode = JString ''stories''"
    and "frontmatter node = Some fm"
  shows "\<exists>child.
      onCreateNode createNodeId createContentDigest stringify node st =
        (Returned,
         st\<lparr>store := (store st)(node_id child \<mapsto> child),
            calls := calls st @ [CreateNode child, CreateParentChildLink node (Some child)]\<rparr>)
    \<and> node_id child = createNodeId (node_id node @ '' >>> MdxStoryPage'')
    \<and> parent child = Some (node_id node)
    \<and> children child = []
    \<and> internal_type (internal child) = ''MdxStoryPage''
    \<and> own_fields child =
        StoryPageFields
          \<lparr>slug = (if truthy (fm ''slug'') then fm ''slug'' else JUndefined),
           title = fm ''title'',
           releaseDate = fm ''releaseDate'',
           banner = fm ''banner'',
           description = fm ''description''\<rparr>"
proof -
  let ?fieldData = "\<lparr>slug = (if truthy (fm ''slug'') then fm ''slug'' else JUndefined),
           title = fm ''title'',
           releaseDate = fm ''releaseDate'',
           banner = fm ''banner'',
           description = fm ''description''\<rparr>"
  let ?child = "\<lparr>node_id = createNodeId (node_id node @ '' >>> MdxStoryPage''),
       parent = Some (node_id node),
       children = [],
       internal =
         \<lparr>internal_type = ''MdxStoryPage'',
          contentDigest = createContentDigest (StoryPageFields ?fieldData),
          content = stringify (StoryPageFields ?fieldData),
          internal_description = Some ''Mdx implementation of the StoryPage interface''\<rparr>,
       own_fields = StoryPageFields ?fieldData\<rparr>"
  have "onCreateNode createNodeId createContentDigest stringify node st =
        (Returned,
         st\<lparr>store := (store st)(node_id ?child \<mapsto> ?child),
            calls := calls st @ [CreateNode ?child, CreateParentChildLink node (Some ?child)]\<rparr>)"
    using assms
    by (simp add: onCreateNode_def Let_def createNode_def createParentChildLink_def getNode_def)
  then show ?thesis
    by (intro exI [of _ ?child]) simp
qed

text \<open>
  Claim C3: \<open>onCreateNode\<close> creates a child node of type \<open>MdxStoryPage\<close> below the node
  and links the two exactly when the node's \<open>internal.type\<close> is \<open>Mdx\<close> and its parent node
  has the \<open>sourceInstanceName\<close> \<open>stories\<close>; for every other node it makes no call and
  leaves the store as it was. An Mdx node carries a frontmatter, as the Mdx plugin creates
  it.
\<close>

theorem onCreateNode_creates_story_page_iff:
  assumes "internal_type (internal node) = ''Mdx'' \<Longrightarrow> frontmatter node \<noteq> None"
  shows "((\<exists>child.
            calls (snd (onCreateNode createNodeId createContentDigest stringify node st)) =
              calls st @ [CreateNode child, CreateParentChildLink node (Some child)]
          \<and> internal_type (internal child) = ''MdxStoryPage''
          \<and> parent child = Some (node_id node))
         \<longleftrightarrow>
         (internal_type (internal node) = ''Mdx''
          \<and> (\<exists>fileNode. getNode st (parent node) = Some fileNode
                \<and> sourceInstanceName fileNode = JString ''stories'')))
     \<and> (\<not> (internal_type (internal node) = ''Mdx''
             \<and> (\<exists>fileNode. getNode st (parent node) = Some fileNode
                   \<and> sourceInstanceName fileNode = JString ''stories''))
         \<longrightarrow> snd (onCreateNode createNodeId createContentDigest stringify node st) = st)"
proof -
  let ?run = "onCreateNode createNodeId createContentDigest stringify node st"
  let ?story = "internal_type (internal node) = ''Mdx''
          \<and> (\<exists>fileNode. getNode st (parent node) = Some fileNode
                \<and> sourceInstanceName fileNode = JString ''stories'')"
  let ?created = "\<exists>child.
            calls (snd ?run) = calls st @ [CreateNode child, CreateParentChildLink node (Some child)]
          \<and> internal_type (internal child) = ''MdxStoryPage''
          \<and> parent child = Some (node_id node)"
  have other: "snd ?run = st" if "\<not> ?story"
  proof (cases "internal_type (internal node) = ''Mdx''")
    case False
    then show ?thesis by (simp add: onCreateNode_not_mdx)
  next
    case True
    show ?thesis
    proof (cases "getNode st (parent node)")
      case None
      with True show ?thesis by (simp add: onCreateNode_no_parent)
    next
      case (Some fileNode)
      with True that have "sourceInstanceName fileNode \<noteq> JString ''stories''" by simp
      with True Some show ?thesis by (simp add: onCreateNode_other_source)
    qed
  qed
  have yes: "?created" if "?story"
  proof -
    from that obtain fileNode where m: "internal_type (internal node) = ''Mdx''"
      and f: "getNode st (parent node) = Some fileNode"
      and s: "sourceInstanceName fileNode = JString ''stories''"
      by blast
    from assms m obtain fm where fm: "frontmatter node = Some fm" by blast
    from onCreateNode_story [OF m f s fm, of createNodeId createContentDigest stringify]
    obtain child where
      "?run = (Returned,
         st\<lparr>store := (store st)(node_id child \<mapsto> child),
            calls := calls st @ [CreateNode child, CreateParentChildLink node (Some child)]\<rparr>)"
      "parent child = Some (node_id node)" "internal_type (internal child) = ''MdxStoryPage''"
      by blast
    then have "calls (snd ?run) = calls st @ [CreateNode child, CreateParentChildLink node (Some child)]
          \<and> internal_type (internal child) = ''MdxStoryPage''
          \<and> parent child = Some (node_id node)"
      by simp
    then show ?thesis by blast
  qed
  have no: "\<not> ?created" if "\<not> ?story"
    using other [OF that] by simp
  from yes no other show ?thesis by blast
qed

theorem onCreateNode_creates_story_page_iff_witness:
  "frontmatter example_mdx \<noteq> None
   \<and> (\<exists>child.
        calls (snd (onCreateNode example_createNodeId example_digest example_stringify
                     example_mdx example_state)) =
          [CreateNode child, CreateParentChildLink example_mdx (Some child)]
      \<and> internal_type (internal child) = ''MdxStoryPage''
      \<and> parent child = Some ''mdx-1'')
   \<and> snd (onCreateNode example_createNodeId example_digest example_stringify
             example_file example_state) = example_state"
proof -
  have fm: "frontmatter example_mdx \<noteq> None"
    by (simp add: frontmatter_def example_mdx_def)
  have story: "internal_type (internal example_mdx) = ''Mdx''
      \<and> (\<exists>fileNode. getNode example_state (parent example_mdx) = Some fileNode
            \<and> sourceInstanceName fileNode = JString ''stories'')"
    by (simp add: example_mdx_def example_state_def getNode_def example_file_def
          sourceInstanceName_def)
  have nofile: "\<not> (internal_type (internal example_file) = ''Mdx''
      \<and> (\<exists>fileNode. getNode example_state (parent example_file) = Some fileNode
            \<and> sourceInstanceName fileNode = JString ''stories''))"
    by (simp add: example_file_def)
  have c: "calls example_state = []" and i: "node_id example_mdx = ''mdx-1''"
    by (simp_all add: example_state_def example_mdx_def)
  from onCreateNode_creates_story_page_iff [of example_mdx example_createNodeId example_digest
      example_stringify example_state] fm story
  have a: "\<exists>child.
        calls (snd (onCreateNode example_createNodeId example_digest example_stringify
                     example_mdx example_state)) =
          [CreateNode child, CreateParentChildLink example_mdx (Some child)]
      \<and> internal_type (internal child) = ''MdxStoryPage''
      \<and> parent child = Some ''mdx-1''"
    unfolding c i by simp
  from onCreateNode_creates_story_page_iff [of example_file example_createNodeId example_digest
      example_stringify example_state] nofile
  have b: "snd (onCreateNode example_createNodeId example_digest example_stringify
             example_file example_state) = example_state"
    by (simp add: example_file_def)
  from fm a b show ?thesis by blast
qed

text \<open>
  Claim C9: for an Mdx node of the \<open>stories\<close> source whose \<open>frontmatter.slug\<close> is absent,
  \<open>null\<close> or the empty string, the \<open>MdxStoryPage\<close> node that \<open>onCreateNode\<close> creates has
  the slug \<open>undefined\<close>, and \<open>slugify\<close> on that node derives the slug from
  \<open>kebabCase\<close> of the title.
\<close>

theorem onCreateNode_falsy_slug:
  assumes "internal_type (internal node) = ''Mdx''"
    and "getNode st (parent node) = Some fileNode"
    and "sourceInstanceName fileNode = JString ''stories''"
    and "frontmatter node = Some fm"
    and "fm ''slug'' \<in> {JUndefined, JNull, JString []}"
  shows "\<exists>child.
      calls (snd (onCreateNode createNodeId createContentDigest stringify node st)) =
        calls st @ [CreateNode child, CreateParentChildLink node (Some child)]
    \<and> internal_type (internal child) = ''MdxStoryPage''
    \<and> source_slug child = JUndefined
    \<and> source_title child = fm ''title''
    \<and> slugify kebabCase child = collapse_slashes (slash # kebabCase (fm ''title''))"
proof -
  from assms(5) have falsy: "\<not> truthy (fm ''slug'')"
    by (simp only: falsy_iff)
  from onCreateNode_story [OF assms(1-4), of createNodeId createContentDigest stringify]
  obtain child where run: "onCreateNode createNodeId createContentDigest stringify node st =
        (Returned,
         st\<lparr>store := (store st)(node_id child \<mapsto> child),
            calls := calls st @ [CreateNode child, CreateParentChildLink node (Some child)]\<rparr>)"
    and ty: "internal_type (internal child) = ''MdxStoryPage''"
    and fd: "own_fields child =
        StoryPageFields
          \<lparr>slug = (if truthy (fm ''slug'') then fm ''slug'' else JUndefined),
           title = fm ''title'',
           releaseDate = fm ''releaseDate'',
           banner = fm ''banner'',
           description = fm ''description''\<rparr>"
    by blast
  from fd falsy have s: "source_slug child = JUndefined" and t: "source_title child = fm ''title''"
    by (simp_all add: source_slug_def source_title_def)
  have "slugify kebabCase child = collapse_slashes (slash # kebabCase (fm ''title''))"
    by (simp add: slugify_collapse s t)
  moreover from run have "calls (snd (onCreateNode createNodeId createContentDigest stringify node st)) =
        calls st @ [CreateNode child, CreateParentChildLink node (Some child)]"
    by simp
  ultimately show ?thesis using ty s t by blast
qed

theorem onCreateNode_falsy_slug_witness:
  "example_frontmatter ''slug'' \<in> {JUndefined, JNull, JString []}
   \<and> (\<exists>child.
        calls (snd (onCreateNode example_createNodeId example_digest example_stringify
                     example_mdx example_state)) =
          [CreateNode child, CreateParentChildLink example_mdx (Some child)]
      \<and> source_slug child = JUndefined
      \<and> slugify example_kebabCase child = ''/hello-world'')"
proof -
  have m: "internal_type (internal example_mdx) = ''Mdx''"
    by (simp add: example_mdx_def)
  have f: "getNode example_state (parent example_mdx) = Some example_file"
    by (simp add: example_mdx_def example_state_def getNode_def)
  have s: "sourceInstanceName example_file = JString ''stories''"
    by (simp add: example_file_def sourceInstanceName_def)
  have fm: "frontmatter example_mdx = Some example_frontmatter"
    by (simp add: frontmatter_def example_mdx_def)
  have falsy: "example_frontmatter ''slug'' \<in> {JUndefined, JNull, JString []}"
    by (simp add: example_frontmatter_def)
  have c: "calls example_state = []"
    by (simp add: example_state_def)
  have t: "collapse_slashes (slash # example_kebabCase (example_frontmatter ''title'')) =
      ''/hello-world''"
    by (simp add: example_frontmatter_def)
  from onCreateNode_falsy_slug [OF m f s fm falsy, of example_createNodeId example_digest
      example_stringify example_kebabCase]
  show ?thesis unfolding c t using falsy by auto
qed

lemma createSchemaCustomization_calls:
  "createSchemaCustomization st =
     (Returned,
      st\<lparr>calls := calls st @
         [CreateFieldExtension slugify_extension, CreateFieldExtension mdxpassthrough_extension,
          CreateTypes type_defs]\<rparr>)"
  by (simp add: createSchemaCustomization_def createFieldExtension_def createTypes_def)

text \<open>
  Claim C6 says that each hook makes the same sequence of framework calls on any two
  inputs. \<open>onCreateNode\<close> makes two calls on an Mdx node of the stories source and none on
  a File node; \<open>createPages\<close> makes other calls when the query fails than when it
  succeeds.
\<close>

theorem hooks_differ_counterexample:
  "map kind_of (calls (snd (onCreateNode example_createNodeId example_digest example_stringify
                             example_mdx example_state)))
   \<noteq> map kind_of (calls (snd (onCreateNode example_createNodeId example_digest example_stringify
                               example_file example_state)))
   \<and> map kind_of (calls (snd (createPages example_graphql example_state)))
   \<noteq> map kind_of (calls (snd (createPages example_graphql_failed example_state)))"
  by (simp add: onCreateNode_def Let_def createNode_def createParentChildLink_def getNode_def
      example_mdx_def example_file_def example_state_def sourceInstanceName_def frontmatter_def
      createPages_def run_graphql_def createPage_def panicOnBuild_def
      example_graphql_def example_graphql_failed_def story_query_result_def
      example_sources_def create_story_page_def)

lemma sourceNodes_calls:
  "\<exists>config. calls (snd (sourceNodes createContentDigest stringify st)) =
       calls st @ [CreateNode config]
     \<and> node_id config = ''site >>> config''
     \<and> parent config = None
     \<and> internal_type (internal config) = ''MinimalBlogConfig''"
  by (simp add: sourceNodes_def createNode_def Let_def)

lemma onCreateNode_calls:
  "if internal_type (internal node) = ''Mdx''
      \<and> (\<exists>fileNode. getNode st (parent node) = Some fileNode
            \<and> sourceInstanceName fileNode = JString ''stories'')
      \<and> frontmatter node \<noteq> None
   then \<exists>child.
          calls (snd (onCreateNode createNodeId createContentDigest stringify node st)) =
            calls st @ [CreateNode child, CreateParentChildLink node (Some child)]
        \<and> internal_type (internal child) = ''MdxStoryPage''
        \<and> parent child = Some (node_id node)
   else calls (snd (onCreateNode createNodeId createContentDigest stringify node st)) = calls st"
proof (cases "internal_type (internal node) = ''Mdx''
      \<and> (\<exists>fileNode. getNode st (parent node) = Some fileNode
            \<and> sourceInstanceName fileNode = JString ''stories'')
      \<and> frontmatter node \<noteq> None")
  case True
  then obtain fileNode fm where m: "internal_type (internal node) = ''Mdx''"
    and f: "getNode st (parent node) = Some fileNode"
    and s: "sourceInstanceName fileNode = JString ''stories''"
    and fm: "frontmatter node = Some fm"
    by blast
  from onCreateNode_story [OF m f s fm, of createNodeId createContentDigest stringify]
  obtain child where
    "onCreateNode createNodeId createContentDigest stringify node st =
       (Returned,
        st\<lparr>store := (store st)(node_id child \<mapsto> child),
           calls := calls st @ [CreateNode child, CreateParentChildLink node (Some child)]\<rparr>)"
    "parent child = Some (node_id node)" "internal_type (internal child) = ''MdxStoryPage''"
    by blast
  then have "calls (snd (onCreateNode createNodeId createContentDigest stringify node st)) =
            calls st @ [CreateNode child, CreateParentChildLink node (Some child)]
        \<and> internal_type (internal child) = ''MdxStoryPage''
        \<and> parent child = Some (node_id node)"
    by simp
  then have ex: "\<exists>child.
          calls (snd (onCreateNode createNodeId createContentDigest stringify node st)) =
            calls st @ [CreateNode child, CreateParentChildLink node (Some child)]
        \<and> internal_type (internal child) = ''MdxStoryPage''
        \<and> parent child = Some (node_id node)"
    by blast
  show ?thesis by (simp only: if_P [OF True] ex)
next
  case False
  have "snd (onCreateNode createNodeId createContentDigest stringify node st) = st"
  proof (cases "internal_type (internal node) = ''Mdx''")
    case nm: False
    then show ?thesis by (simp add: onCreateNode_not_mdx)
  next
    case m: True
    show ?thesis
    proof (cases "getNode st (parent node)")
      case None
      with m show ?thesis by (simp add: onCreateNode_no_parent)
    next
      case (Some fileNode)
      show ?thesis
      proof (cases "sourceInstanceName fileNode = JString ''stories''")
        case ns: False
        with m Some show ?thesis by (simp add: onCreateNode_other_source)
      next
        case s: True
        with False m Some have "frontmatter node = None" by simp
        with m Some s show ?thesis by (simp add: onCreateNode_no_frontmatter)
      qed
    qed
  qed
  then have eq: "calls (snd (onCreateNode createNodeId createContentDigest stringify node st)) = calls st"
    by simp
  show ?thesis by (simp only: if_not_P [OF False] eq)
qed

lemma createPages_calls:
  "calls (snd (createPages graphql st)) =
     calls st @ [CreatePage stories_listing_page, Graphql story_pages_query] @
     (case errors (graphql story_pages_query) of
        Some errs \<Rightarrow> [PanicOnBuild ''There was an error loading your pages'' errs]
      | None \<Rightarrow>
          (case data (graphql story_pages_query) of
             None \<Rightarrow> []
           | Some d \<Rightarrow>
               map (\<lambda>n. CreatePage
                     \<lparr>path = collapse_slashes (page_slug n),
                      component = storyPageTemplate,
                      pageContext =
                        \<lparr>breadcrumbs = filter (\<lambda>piece. piece \<noteq> []) (split_on slash (page_slug n)),
                         context_slug = Some (page_slug n),
                         formatString = ''DD.MM.YYYY''\<rparr>\<rparr>) (nodes (allStoryPage d))))"
proof (cases "errors (graphql story_pages_query)")
  case (Some errs)
  then show ?thesis by (simp add: createPages_failed)
next
  case None
  then show ?thesis
    by (cases "data (graphql story_pages_query)")
       (simp_all add: createPages_no_data createPages_ok replace_is_collapse
          filter_Boolean_nonempty)
qed

text \<open>
  Claim C6, as the code has it: \<open>createSchemaCustomization\<close> and \<open>sourceNodes\<close> make one
  fixed sequence of calls on every input: the two field extensions and the types; one
  \<open>createNode\<close> of the configuration node. \<open>onCreateNode\<close> makes \<open>createNode\<close> of an
  \<open>MdxStoryPage\<close> child and then \<open>createParentChildLink\<close> when the node is an Mdx node
  with a frontmatter whose parent is of the \<open>stories\<close> source, and no call otherwise.
  \<open>createPages\<close> creates the \<open>/stories\<close> page and runs the query; then it calls
  \<open>panicOnBuild\<close> when the result has errors, and otherwise makes exactly one \<open>createPage\<close>
  for each node of the result, in order (none when the result has no data).
\<close>

theorem hooks_call_sequences:
  "calls (snd (createSchemaCustomization st)) =
     calls st @
     [CreateFieldExtension slugify_extension, CreateFieldExtension mdxpassthrough_extension,
      CreateTypes type_defs]
   \<and> (\<exists>config.
         calls (snd (sourceNodes createContentDigest stringify st)) = calls st @ [CreateNode config]
       \<and> node_id config = ''site >>> config''
       \<and> parent config = None
       \<and> internal_type (internal config) = ''MinimalBlogConfig'')
   \<and> (if internal_type (internal node) = ''Mdx''
          \<and> (\<exists>fileNode. getNode st (parent node) = Some fileNode
                \<and> sourceInstanceName fileNode = JString ''stories'')
          \<and> frontmatter node \<noteq> None
       then \<exists>child.
              calls (snd (onCreateNode createNodeId createContentDigest stringify node st)) =
                calls st @ [CreateNode child, CreateParentChildLink node (Some child)]
            \<and> internal_type (internal child) = ''MdxStoryPage''
            \<and> parent child = Some (node_id node)
       else calls (snd (onCreateNode createNodeId createContentDigest stringify node st)) =
              calls st)
   \<and> calls (snd (createPages graphql st)) =
       calls st @ [CreatePage stories_listing_page, Graphql story_pages_query] @
       (case errors (graphql story_pages_query) of
          Some errs \<Rightarrow> [PanicOnBuild ''There was an error loading your pages'' errs]
        | None \<Rightarrow>
            (case data (graphql story_pages_query) of
               None \<Rightarrow> []
             | Some d \<Rightarrow>
                 map (\<lambda>n. CreatePage
                       \<lparr>path = collapse_slashes (page_slug n),
                        component = storyPageTemplate,
                        pageContext =
                          \<lparr>breadcrumbs =
                             filter (\<lambda>piece. piece \<noteq> []) (split_on slash (page_slug n)),
                           context_slug = Some (page_slug n),
                           formatString = ''DD.MM.YYYY''\<rparr>\<rparr>) (nodes (allStoryPage d))))"
proof -
  have a: "calls (snd (createSchemaCustomization st)) =
     calls st @
     [CreateFieldExtension slugify_extension, CreateFieldExtension mdxpassthrough_extension,
      CreateTypes type_defs]"
    by (simp add: createSchemaCustomization_calls)
  note b = sourceNodes_calls [of createContentDigest stringify st]
  note c = onCreateNode_calls [of node st createNodeId createContentDigest stringify]
  note d = createPages_calls [of graphql st]
  from a b c d show ?thesis by (intro conjI)
qed

theorem hooks_call_sequences_witness:
  "calls (snd (createSchemaCustomization example_state)) =
     [CreateFieldExtension slugify_extension, CreateFieldExtension mdxpassthrough_extension,
      CreateTypes type_defs]
   \<and> (\<exists>child.
        calls (snd (onCreateNode example_createNodeId example_digest example_stringify
                     example_mdx example_state)) =
          [CreateNode child, CreateParentChildLink example_mdx (Some child)])
   \<and> calls (snd (onCreateNode example_createNodeId example_digest example_stringify
                   example_file example_state)) = []
   \<and> calls (snd (createPages example_graphql_failed example_state)) =
       [CreatePage stories_listing_page, Graphql story_pages_query,
        PanicOnBuild ''There was an error loading your pages'' [''Cannot query field'']]
   \<and> map kind_of (calls (snd (createPages example_graphql_slashes example_state))) =
       [createPageK, graphqlK, createPageK, createPageK]"
proof -
  have c: "calls example_state = []"
    by (simp add: example_state_def)
  have story: "internal_type (internal example_mdx) = ''Mdx''
      \<and> (\<exists>fileNode. getNode example_state (parent example_mdx) = Some fileNode
            \<and> sourceInstanceName fileNode = JString ''stories'')
      \<and> frontmatter example_mdx \<noteq> None"
    by (simp add: example_mdx_def example_state_def getNode_def example_file_def
          sourceInstanceName_def frontmatter_def)
  have nostory: "\<not> (internal_type (internal example_file) = ''Mdx''
      \<and> (\<exists>fileNode. getNode example_state (parent example_file) = Some fileNode
            \<and> sourceInstanceName fileNode = JString ''stories'')
      \<and> frontmatter example_file \<noteq> None)"
    by (simp add: example_file_def)
  have f: "errors (example_graphql_failed story_pages_query) = Some [''Cannot query field'']"
    by (simp add: example_graphql_failed_def)
  have e: "errors (example_graphql_slashes story_pages_query) = None"
    and d: "data (example_graphql_slashes story_pages_query) =
      Some \<lparr>allStoryPage = \<lparr>nodes = [\<lparr>page_slug = ''/a//b''\<rparr>, \<lparr>page_slug = ''/a/b''\<rparr>]\<rparr>\<rparr>"
    by (simp_all add: example_graphql_slashes_def)
  note m = hooks_call_sequences [of example_state example_digest example_stringify example_mdx
      example_createNodeId example_graphql_failed]
  note n = hooks_call_sequences [of example_state example_digest example_stringify example_file
      example_createNodeId example_graphql_slashes]
  from m have 1: "calls (snd (createSchemaCustomization example_state)) =
     [CreateFieldExtension slugify_extension, CreateFieldExtension mdxpassthrough_extension,
      CreateTypes type_defs]"
    unfolding c by simp
  from m story have 2: "\<exists>child.
        calls (snd (onCreateNode example_createNodeId example_digest example_stringify
                     example_mdx example_state)) =
          [CreateNode child, CreateParentChildLink example_mdx (Some child)]"
    unfolding c by auto
  from n nostory have 3: "calls (snd (onCreateNode example_createNodeId example_digest
      example_stringify example_file example_state)) = []"
    unfolding c by (simp only: if_False)
  from m have 4: "calls (snd (createPages example_graphql_failed example_state)) =
       [CreatePage stories_listing_page, Graphql story_pages_query,
        PanicOnBuild ''There was an error loading your pages'' [''Cannot query field'']]"
    unfolding c f by simp
  from n have 5: "map kind_of (calls (snd (createPages example_graphql_slashes example_state))) =
       [createPageK, graphqlK, createPageK, createPageK]"
    unfolding c e d by simp
  from 1 2 3 4 5 show ?thesis by (intro conjI)
qed

end
